theory Spec2Isabelle
  imports Main "HOL-Library.Word"
begin

section \<open>The auth cell of pkg/auth/cell.go\<close>

text \<open>
  The file wires the authentication manager, the auth map cache and the auth map garbage
  collector into the agent: it reads the configuration, calls the constructors, appends
  hooks to the lifecycle, creates a job group and adds jobs to it, and registers a channel
  with the signal manager. The embedding keeps every one of these calls as an update of an
  explicit world state, in the order the source makes them. What the collaborators outside
  the file answer (whether \<open>newAuthManager\<close>, \<open>RegisterHandler\<close> and \<open>restoreCache\<close> fail) is
  a parameter, the record \<open>env\<close>, and so is the size of the element type of the signal
  channel, which the file does not declare.
\<close>

subsection \<open>Configuration (lines 55-73)\<close>

text \<open>
  \<open>time.Duration\<close> is a count of nanoseconds in an int64. The constants are those of
  Go's package time.
\<close>

type_synonym Duration = int

definition Nanosecond :: Duration where
  "Nanosecond = 1"

definition Microsecond :: Duration where
  "Microsecond = 1000 * Nanosecond"

definition Millisecond :: Duration where
  "Millisecond = 1000 * Microsecond"

definition Second :: Duration where
  "Second = 1000 * Millisecond"

definition Minute :: Duration where
  "Minute = 60 * Second"

record config =
  MeshAuthEnabled :: bool
  MeshAuthQueueSize :: int
  MeshAuthGCInterval :: Duration

text \<open>The value handed to \<open>cell.Config\<close> in \<open>Cell\<close> (lines 55-59).\<close>

definition defaultConfig :: config where
  "defaultConfig =
     \<lparr> MeshAuthEnabled = True,
       MeshAuthQueueSize = 1024,
       MeshAuthGCInterval = 5 * Minute \<rparr>"

text \<open>
  A \<open>pflag.FlagSet\<close> is the list of the flags defined on it, each with its name, its
  default value and its usage line. \<open>Flags\<close> (lines 69-73) defines three flags whose
  defaults are the fields of the receiver.
\<close>

datatype flag_value = BoolValue bool | IntValue int | DurationValue Duration

record flag =
  flag_name :: string
  flag_default :: flag_value
  flag_usage :: string

definition Flags :: "config \<Rightarrow> flag list \<Rightarrow> flag list" where
  "Flags r flags =
     flags @
     [ \<lparr> flag_name = ''mesh-auth-enabled'',
         flag_default = BoolValue (MeshAuthEnabled r),
         flag_usage = ''Enable authentication processing & garbage collection'' \<rparr>,
       \<lparr> flag_name = ''mesh-auth-queue-size'',
         flag_default = IntValue (MeshAuthQueueSize r),
         flag_usage = ''Queue size for the auth manager'' \<rparr>,
       \<lparr> flag_name = ''mesh-auth-gc-interval'',
         flag_default = DurationValue (MeshAuthGCInterval r),
         flag_usage = ''Interval in which auth entries are attempted to be garbage collected'' \<rparr> ]"

text \<open>The default of the flag of a given name, when the flag set has one.\<close>

fun lookupDefault :: "flag list \<Rightarrow> string \<Rightarrow> flag_value option" where
  "lookupDefault [] n = None"
| "lookupDefault (f # fs) n = (if flag_name f = n then Some (flag_default f) else lookupDefault fs n)"

subsection \<open>Errors and panics\<close>

text \<open>
  A Go \<open>error\<close> is either one a collaborator returned or one made by
  \<open>fmt.Errorf("<msg>: %w", err)\<close>, which wraps \<open>err\<close>. The return value \<open>nil\<close> is
  \<open>None\<close>. A run-time panic is a value of its own: a function that can panic returns
  \<open>panic + 'a\<close>.
\<close>

datatype error = External string | Errorf string error

datatype panic = MakechanSizeOutOfRange | NilPointerDereference

subsection \<open>Handlers, channels, jobs and hooks\<close>

text \<open>
  An \<open>authHandler\<close> is an interface value: \<open>None\<close> is the nil interface. Of its methods the
  file calls \<open>subscribeToRotatedIdentities\<close> only, which returns a channel of rotation
  events or nil. The channels of the handlers are named by numbers. The method is taken as
  a getter: every call on a handler answers the same channel.
\<close>

type_synonym rotation_chan = nat

datatype authHandler =
  AuthHandler (authType: string) (subscribeToRotatedIdentities: "rotation_chan option")

text \<open>
  A method call on an interface value: on the nil interface it panics.
\<close>

fun call_subscribeToRotatedIdentities :: "authHandler option \<Rightarrow> panic + rotation_chan option" where
  "call_subscribeToRotatedIdentities None = Inl NilPointerDereference"
| "call_subscribeToRotatedIdentities (Some ah) = Inr (subscribeToRotatedIdentities ah)"

text \<open>
  The channel of \<open>signalAuthKey\<close> made by \<open>registerSignalAuthenticationJob\<close>: its
  identity (the allocation number) and its capacity.
\<close>

record signal_chan =
  chan_id :: nat
  chan_cap :: int

datatype signalType = SignalAuthRequired | SignalOther nat

text \<open>The sources of events a job observes.\<close>

datatype event_source =
    FromSignalChannel signal_chan
  | FromRotationChannel "rotation_chan option"
  | IdentityChanges nat
  | CiliumNodes nat

text \<open>The methods of the manager and of the garbage collector that the jobs run.\<close>

datatype job_func =
    handleAuthRequest
  | handleCertificateRotationEvent
  | handleIdentityChange
  | handleCiliumNodeEvent
  | cleanup

datatype job =
    Observer string job_func event_source
  | Timer string job_func Duration

text \<open>
  What is appended to the lifecycle: the hook of lines 113-121, whose \<open>OnStart\<close> calls
  \<open>mapCache.restoreCache\<close>; a job group, by reference; or a hook of another cell.
\<close>

datatype hook =
    Hook_restoreCache
  | Hook_jobGroup nat
  | Hook_other nat

datatype component = AuthMapWriter | AuthMapCache | AuthManager | AuthMapGC

subsection \<open>The world the cell acts on\<close>

text \<open>
  \<^item> \<open>logs\<close>: the lines written with \<open>Logger.Info\<close>;
  \<^item> \<open>constructed\<close>: the components built, in order;
  \<^item> \<open>lifecycle\<close>: the hooks given to \<open>Lifecycle.Append\<close>, in order;
  \<^item> \<open>nextGroup\<close>, \<open>groups\<close>: the job groups made by \<open>JobRegistry.NewGroup\<close> and the jobs
    given to \<open>Add\<close> on each. A group is a reference: jobs added after the group was
    appended to the lifecycle belong to the appended group;
  \<^item> \<open>nextChan\<close>: the number of channels made so far;
  \<^item> \<open>registerHandlerCalls\<close>: the calls of \<open>SignalManager.RegisterHandler\<close>, each with the
    channel and the signals it was made for.
\<close>

record world =
  logs :: "string list"
  constructed :: "component list"
  lifecycle :: "hook list"
  nextGroup :: nat
  groups :: "nat \<Rightarrow> job list"
  nextChan :: nat
  registerHandlerCalls :: "(signal_chan \<times> signalType list) list"

text \<open>
  What the collaborators answer: whether \<open>newAuthManager\<close> fails on the handlers it is
  given, whether \<open>SignalManager.RegisterHandler\<close> fails on the channel and the signals it is
  given, whether \<open>mapCache.restoreCache\<close> fails, and whether the start hook of another cell
  fails. And the size in bytes of \<open>signalAuthKey\<close>, the element type of the signal channel:
  the type is declared outside the file. Go keeps the element size of a channel in a
  \<open>uint16\<close> (the compiler refuses a channel element of 64 kB or more).
\<close>

record env =
  newAuthManager :: "authHandler option list \<Rightarrow> error option"
  RegisterHandler :: "signal_chan \<Rightarrow> signalType list \<Rightarrow> error option"
  restoreCache :: "error option"
  otherHook_OnStart :: "nat \<Rightarrow> error option"
  signalAuthKey_size :: "16 word"

text \<open>
  Of \<open>authManagerParams\<close> the fields that the functions branch on or hand to a job; the
  identity changes and the node resource are named by numbers, and a nil node resource is
  \<open>None\<close>. The logger, the lifecycle, the job registry and the signal manager are the
  world above; the auth map, the IP cache and the policy repository only go to the
  constructors.
\<close>

record authManagerParams =
  Config :: config
  AuthHandlers :: "authHandler option list"
  IdentityChangesParam :: nat
  CiliumNodesParam :: "nat option"

text \<open>
  The calls on the collaborators. \<open>NewGroup\<close> answers a new group (its options, the logger
  and the pprof labels, are left out); \<open>Add\<close> puts a job at the end of a group.
\<close>

definition Logger_Info :: "string \<Rightarrow> world \<Rightarrow> world" where
  "Logger_Info msg w = w\<lparr>logs := logs w @ [msg]\<rparr>"

definition construct :: "component \<Rightarrow> world \<Rightarrow> world" where
  "construct c w = w\<lparr>constructed := constructed w @ [c]\<rparr>"

definition Lifecycle_Append :: "hook \<Rightarrow> world \<Rightarrow> world" where
  "Lifecycle_Append h w = w\<lparr>lifecycle := lifecycle w @ [h]\<rparr>"

definition JobRegistry_NewGroup :: "world \<Rightarrow> nat \<times> world" where
  "JobRegistry_NewGroup w = (nextGroup w, w\<lparr>nextGroup := Suc (nextGroup w)\<rparr>)"

definition jobGroup_Add :: "nat \<Rightarrow> job \<Rightarrow> world \<Rightarrow> world" where
  "jobGroup_Add g j w = w\<lparr>groups := (groups w)(g := groups w g @ [j])\<rparr>"

text \<open>
  \<open>make(chan signalAuthKey, n)\<close> is \<open>runtime.makechan\<close>, which panics with "makechan: size
  out of range" when
  \<^verbatim>\<open>overflow || mem > maxAlloc-hchanSize || size < 0\<close>,
  where \<open>mem\<close> is the element size times \<open>n\<close> and \<open>overflow\<close> says that the product does
  not fit a \<open>uintptr\<close>. Over the integers the overflow is the second case. The constants are
  those of the Go runtime on 64-bit Linux (amd64, arm64), which the agent is built for:
  \<open>maxAlloc\<close> is \<open>2^48\<close> (48 bits of heap address) and \<open>hchanSize\<close>, the size of the
  channel header, is 96. That the machine has the memory for a buffer within this bound is
  not modelled.
\<close>

definition maxAlloc :: int where
  "maxAlloc = 2 ^ 48"

definition hchanSize :: int where
  "hchanSize = 96"

definition makechan_size_out_of_range :: "env \<Rightarrow> int \<Rightarrow> bool" where
  "makechan_size_out_of_range e n =
     (maxAlloc - hchanSize < uint (signalAuthKey_size e) * n \<or> n < 0)"

definition make_chan :: "env \<Rightarrow> int \<Rightarrow> world \<Rightarrow> panic + (signal_chan \<times> world)" where
  "make_chan e n w =
     (if makechan_size_out_of_range e n then Inl MakechanSizeOutOfRange
      else Inr (\<lparr>chan_id = nextChan w, chan_cap = n\<rparr>, w\<lparr>nextChan := Suc (nextChan w)\<rparr>))"

definition sm_RegisterHandler ::
  "env \<Rightarrow> signal_chan \<Rightarrow> signalType list \<Rightarrow> world \<Rightarrow> error option \<times> world" where
  "sm_RegisterHandler e ch sigs w =
     (RegisterHandler e ch sigs, w\<lparr>registerHandlerCalls := registerHandlerCalls w @ [(ch, sigs)]\<rparr>)"

subsection \<open>registerReAuthenticationJob (lines 138-144)\<close>

text \<open>
  The loop over the handlers. The condition \<open>ah != nil && ah.subscribeToRotatedIdentities()
  != nil\<close> evaluates its second operand only when the first holds; the body calls the
  method once more for the channel it observes.
\<close>

fun registerReAuthenticationJob :: "nat \<Rightarrow> authHandler option list \<Rightarrow> world \<Rightarrow> panic + world" where
  "registerReAuthenticationJob jobGroup [] w = Inr w"
| "registerReAuthenticationJob jobGroup (ah # authHandlers) w =
     (if ah = None then registerReAuthenticationJob jobGroup authHandlers w
      else
        (case call_subscribeToRotatedIdentities ah of
           Inl p \<Rightarrow> Inl p
         | Inr None \<Rightarrow> registerReAuthenticationJob jobGroup authHandlers w
         | Inr (Some c) \<Rightarrow>
             (case call_subscribeToRotatedIdentities ah of
                Inl p \<Rightarrow> Inl p
              | Inr ch \<Rightarrow>
                  registerReAuthenticationJob jobGroup authHandlers
                    (jobGroup_Add jobGroup
                       (Observer ''auth re-authentication'' handleCertificateRotationEvent
                          (FromRotationChannel ch)) w))))"

subsection \<open>registerSignalAuthenticationJob (lines 146-158)\<close>

definition registerSignalAuthenticationJob ::
  "env \<Rightarrow> nat \<Rightarrow> config \<Rightarrow> world \<Rightarrow> panic + (error option \<times> world)" where
  "registerSignalAuthenticationJob e jobGroup cfg w =
     (case make_chan e (MeshAuthQueueSize cfg) w of
        Inl p \<Rightarrow> Inl p
      | Inr (signalChannel, w1) \<Rightarrow>
          (case sm_RegisterHandler e signalChannel [SignalAuthRequired] w1 of
             (Some err, w2) \<Rightarrow>
               Inr (Some (Errorf
                 ''failed to set up signal channel for datapath authentication required events'' err), w2)
           | (None, w2) \<Rightarrow>
               Inr (None,
                 jobGroup_Add jobGroup
                   (Observer ''auth request-authentication'' handleAuthRequest
                      (FromSignalChannel signalChannel)) w2)))"

subsection \<open>registerGCJobs (lines 160-169)\<close>

definition registerGCJobs :: "nat \<Rightarrow> config \<Rightarrow> nat option \<Rightarrow> nat \<Rightarrow> world \<Rightarrow> world" where
  "registerGCJobs jobGroup cfg nodeChanges identityChanges w =
     (let w1 = jobGroup_Add jobGroup
                 (Observer ''auth gc-identity-events'' handleIdentityChange
                    (IdentityChanges identityChanges)) w;
          w2 = (case nodeChanges of
                  None \<Rightarrow> w1
                | Some r \<Rightarrow>
                    jobGroup_Add jobGroup
                      (Observer ''auth gc-node-events'' handleCiliumNodeEvent (CiliumNodes r)) w1)
      in jobGroup_Add jobGroup (Timer ''auth gc-cleanup'' cleanup (MeshAuthGCInterval cfg)) w2)"

subsection \<open>registerAuthManager (lines 93-136)\<close>

text \<open>The \<open>OnStart\<close> function of the hook of lines 113-121.\<close>

definition restoreCacheHook_OnStart :: "env \<Rightarrow> error option" where
  "restoreCacheHook_OnStart e =
     (case restoreCache e of
        Some err \<Rightarrow> Some (Errorf ''failed to restore auth map cache'' err)
      | None \<Rightarrow> None)"

definition registerAuthManager ::
  "env \<Rightarrow> authManagerParams \<Rightarrow> world \<Rightarrow> panic + (error option \<times> world)" where
  "registerAuthManager e params w =
     (if \<not> MeshAuthEnabled (Config params) then
        Inr (None, Logger_Info ''Authentication processing is disabled'' w)
      else
        let w1 = construct AuthMapWriter w;
            w2 = construct AuthMapCache w1
        in
          (case newAuthManager e (AuthHandlers params) of
             Some err \<Rightarrow> Inr (Some (Errorf ''failed to create auth manager'' err), w2)
           | None \<Rightarrow>
               let w3 = construct AuthManager w2;
                   w4 = construct AuthMapGC w3;
                   w5 = Lifecycle_Append Hook_restoreCache w4;
                   (jobGroup, w6) = JobRegistry_NewGroup w5;
                   w7 = Lifecycle_Append (Hook_jobGroup jobGroup) w6
               in
                 (case registerSignalAuthenticationJob e jobGroup (Config params) w7 of
                    Inl p \<Rightarrow> Inl p
                  | Inr (Some err, w8) \<Rightarrow>
                      Inr (Some (Errorf ''failed to register signal authentication job'' err), w8)
                  | Inr (None, w8) \<Rightarrow>
                      (case registerReAuthenticationJob jobGroup (AuthHandlers params) w8 of
                         Inl p \<Rightarrow> Inl p
                       | Inr w9 \<Rightarrow>
                           Inr (None,
                             registerGCJobs jobGroup (Config params) (CiliumNodesParam params)
                               (IdentityChangesParam params) w9)))))"

subsection \<open>Starting the lifecycle\<close>

text \<open>
  The file appends to the lifecycle (\<open>hive.Lifecycle\<close>) and adds to the job group
  (\<open>job.Group\<close>); what a start of the lifecycle does with the hooks is code of
  \<open>pkg/hive\<close>, not of the file. A start is modelled with the trace of what it started.
\<close>

datatype start_event = CacheRestored | JobStarted nat job | OtherStarted nat

text \<open>
  Modelled from the spec: the start of one hook; \<open>job.Group\<close> and the hooks of other cells
  are missing from the source. The restore hook runs its \<open>OnStart\<close> (which is in the
  file); a job group starts the jobs added to it, the "independent concurrent
  observer/timer" tasks of the spec, and does not fail; a hook of another cell answers as the
  environment says.
\<close>

fun hook_Start :: "env \<Rightarrow> (nat \<Rightarrow> job list) \<Rightarrow> hook \<Rightarrow> start_event list \<times> error option" where
  "hook_Start e gs Hook_restoreCache =
     (case restoreCacheHook_OnStart e of
        Some err \<Rightarrow> ([], Some err)
      | None \<Rightarrow> ([CacheRestored], None))"
| "hook_Start e gs (Hook_jobGroup g) = (map (JobStarted g) (gs g), None)"
| "hook_Start e gs (Hook_other n) =
     (case otherHook_OnStart e n of
        Some err \<Rightarrow> ([], Some err)
      | None \<Rightarrow> ([OtherStarted n], None))"

text \<open>
  Modelled from the spec: the start of the lifecycle; \<open>hive.Lifecycle\<close> is missing from the
  source. The spec has the cache restored "before any request processing begins", the
  restore to "complete (or fail fatally) before the manager accepts signal traffic", and
  the observers and the timer "bound to the process lifecycle". So the start hooks run one
  after the other in the order they were appended, and the first that fails ends the start
  with its error.
\<close>

fun Lifecycle_Start ::
  "env \<Rightarrow> (nat \<Rightarrow> job list) \<Rightarrow> hook list \<Rightarrow> start_event list \<times> error option" where
  "Lifecycle_Start e gs [] = ([], None)"
| "Lifecycle_Start e gs (h # hs) =
     (case hook_Start e gs h of
        (evs, Some err) \<Rightarrow> (evs, Some err)
      | (evs, None) \<Rightarrow>
          (case Lifecycle_Start e gs hs of (evs', r) \<Rightarrow> (evs @ evs', r)))"

text \<open>
  A lifecycle whose job groups were all made by the registry: none has the number of a
  group still to be made.
\<close>

fun groupsBelow :: "nat \<Rightarrow> hook list \<Rightarrow> bool" where
  "groupsBelow n [] = True"
| "groupsBelow n (Hook_jobGroup g # hs) = (g < n \<and> groupsBelow n hs)"
| "groupsBelow n (h # hs) = groupsBelow n hs"

subsection \<open>The jobs the functions add, in closed form\<close>

text \<open>
  The channels of the handlers that are not nil and whose subscription is not nil, in the
  order of the handlers.
\<close>

fun rotationSubscriptions :: "authHandler option list \<Rightarrow> rotation_chan list" where
  "rotationSubscriptions [] = []"
| "rotationSubscriptions (None # hs) = rotationSubscriptions hs"
| "rotationSubscriptions (Some h # hs) =
     (case subscribeToRotatedIdentities h of
        None \<Rightarrow> rotationSubscriptions hs
      | Some c \<Rightarrow> c # rotationSubscriptions hs)"

definition reAuthenticationJob :: "rotation_chan \<Rightarrow> job" where
  "reAuthenticationJob c =
     Observer ''auth re-authentication'' handleCertificateRotationEvent (FromRotationChannel (Some c))"

definition signalAuthenticationJob :: "signal_chan \<Rightarrow> job" where
  "signalAuthenticationJob ch =
     Observer ''auth request-authentication'' handleAuthRequest (FromSignalChannel ch)"

definition gcIdentityJob :: "nat \<Rightarrow> job" where
  "gcIdentityJob identityChanges =
     Observer ''auth gc-identity-events'' handleIdentityChange (IdentityChanges identityChanges)"

definition gcNodeJob :: "nat \<Rightarrow> job" where
  "gcNodeJob r = Observer ''auth gc-node-events'' handleCiliumNodeEvent (CiliumNodes r)"

definition gcCleanupJob :: "config \<Rightarrow> job" where
  "gcCleanupJob cfg = Timer ''auth gc-cleanup'' cleanup (MeshAuthGCInterval cfg)"

text \<open>The world after the jobs \<open>js\<close> were added to the group \<open>g\<close>, in this order.\<close>

definition addJobs :: "nat \<Rightarrow> job list \<Rightarrow> world \<Rightarrow> world" where
  "addJobs g js w = w\<lparr>groups := (groups w)(g := groups w g @ js)\<rparr>"

text \<open>The jobs \<open>registerGCJobs\<close> adds, in the order it adds them.\<close>

definition gcJobs :: "config \<Rightarrow> nat option \<Rightarrow> nat \<Rightarrow> job list" where
  "gcJobs cfg nodeChanges identityChanges =
     gcIdentityJob identityChanges #
     (case nodeChanges of None \<Rightarrow> [] | Some r \<Rightarrow> [gcNodeJob r]) @
     [gcCleanupJob cfg]"

text \<open>
  The channel \<open>registerSignalAuthenticationJob\<close> makes in the world \<open>w\<close>, and the world
  after the channel was made and \<open>RegisterHandler\<close> was called with it.
\<close>

definition signalChannel :: "config \<Rightarrow> world \<Rightarrow> signal_chan" where
  "signalChannel cfg w = \<lparr>chan_id = nextChan w, chan_cap = MeshAuthQueueSize cfg\<rparr>"

definition afterRegisterHandler :: "config \<Rightarrow> world \<Rightarrow> world" where
  "afterRegisterHandler cfg w =
     w\<lparr>nextChan := Suc (nextChan w),
       registerHandlerCalls :=
         registerHandlerCalls w @ [(signalChannel cfg w, [SignalAuthRequired])]\<rparr>"

text \<open>
  The world after \<open>registerAuthManager\<close> built the four components and appended the
  restore hook and the new job group to the lifecycle; and all the jobs it adds to that
  group when nothing fails.
\<close>

definition afterAppends :: "world \<Rightarrow> world" where
  "afterAppends w =
     w\<lparr>constructed := constructed w @ [AuthMapWriter, AuthMapCache, AuthManager, AuthMapGC],
       lifecycle := lifecycle w @ [Hook_restoreCache, Hook_jobGroup (nextGroup w)],
       nextGroup := Suc (nextGroup w)\<rparr>"

definition cellJobs :: "authManagerParams \<Rightarrow> world \<Rightarrow> job list" where
  "cellJobs params w =
     signalAuthenticationJob (signalChannel (Config params) w) #
     map reAuthenticationJob (rotationSubscriptions (AuthHandlers params)) @
     gcJobs (Config params) (CiliumNodesParam params) (IdentityChangesParam params)"

text \<open>Worlds, environments and parameters to evaluate the functions on.\<close>

definition world0 :: world where
  "world0 =
     \<lparr> logs = [], constructed = [], lifecycle = [], nextGroup = 0, groups = (\<lambda>g. []),
       nextChan = 0, registerHandlerCalls = [] \<rparr>"

definition env_ok :: env where
  "env_ok =
     \<lparr> newAuthManager = (\<lambda>hs. None), RegisterHandler = (\<lambda>ch sigs. None), restoreCache = None,
       otherHook_OnStart = (\<lambda>n. None), signalAuthKey_size = 12 \<rparr>"

definition mutualHandler :: authHandler where
  "mutualHandler = AuthHandler ''spire'' (Some 7)"

definition alwaysFailHandler :: authHandler where
  "alwaysFailHandler = AuthHandler ''test-always-fail'' None"

definition params0 :: authManagerParams where
  "params0 =
     \<lparr> Config = defaultConfig,
       AuthHandlers = [Some mutualHandler, None, Some alwaysFailHandler],
       IdentityChangesParam = 0,
       CiliumNodesParam = Some 0 \<rparr>"

definition env_restore_fails :: env where
  "env_restore_fails = env_ok\<lparr>restoreCache := Some (External ''authmap dump failed'')\<rparr>"

definition env_manager_fails :: env where
  "env_manager_fails =
     env_ok\<lparr>newAuthManager := (\<lambda>hs. Some (External ''multiple handlers for auth type''))\<rparr>"

definition disabledConfig :: config where
  "disabledConfig = defaultConfig\<lparr>MeshAuthEnabled := False\<rparr>"

definition negativeQueueConfig :: config where
  "negativeQueueConfig = defaultConfig\<lparr>MeshAuthQueueSize := - 1\<rparr>"

definition hugeQueueConfig :: config where
  "hugeQueueConfig = defaultConfig\<lparr>MeshAuthQueueSize := 2 ^ 62\<rparr>"

text \<open>The world \<open>registerAuthManager\<close> leaves from \<open>world0\<close> with \<open>params0\<close> when nothing fails.\<close>

definition wired0 :: world where
  "wired0 =
     addJobs 0 (cellJobs params0 world0) (afterRegisterHandler defaultConfig (afterAppends world0))"

section \<open>Properties\<close>

subsection \<open>Auxiliary facts\<close>

lemma jobGroup_Add_addJobs: "jobGroup_Add g j w = addJobs g [j] w"
  by (simp add: jobGroup_Add_def addJobs_def)

lemma addJobs_addJobs: "addJobs g ys (addJobs g xs w) = addJobs g (xs @ ys) w"
  by (cases w) (simp add: addJobs_def)

lemma addJobs_Nil: "addJobs g [] w = w"
  by (cases w) (simp add: addJobs_def)

lemma addJobs_fields:
  "groups (addJobs g js w) g' = (if g' = g then groups w g @ js else groups w g')"
  "logs (addJobs g js w) = logs w"
  "constructed (addJobs g js w) = constructed w"
  "lifecycle (addJobs g js w) = lifecycle w"
  "nextGroup (addJobs g js w) = nextGroup w"
  "nextChan (addJobs g js w) = nextChan w"
  "registerHandlerCalls (addJobs g js w) = registerHandlerCalls w"
  by (simp_all add: addJobs_def)

lemma registerReAuthenticationJob_closed:
  "registerReAuthenticationJob g hs w =
     Inr (addJobs g (map reAuthenticationJob (rotationSubscriptions hs)) w)"
proof (induction hs arbitrary: w)
  case Nil
  then show ?case by (simp add: addJobs_Nil)
next
  case (Cons ah hs)
  show ?case
  proof (cases ah)
    case None
    then show ?thesis using Cons.IH by simp
  next
    case (Some h)
    then show ?thesis
      using Cons.IH
      by (cases "subscribeToRotatedIdentities h")
         (simp_all add: jobGroup_Add_addJobs addJobs_addJobs reAuthenticationJob_def)
  qed
qed

lemma registerGCJobs_closed:
  "registerGCJobs g cfg nodeChanges identityChanges w =
     addJobs g (gcJobs cfg nodeChanges identityChanges) w"
  by (cases nodeChanges)
     (simp_all add: registerGCJobs_def gcJobs_def jobGroup_Add_addJobs addJobs_addJobs gcIdentityJob_def
        gcNodeJob_def gcCleanupJob_def Let_def)

lemma default_size_in_range:
  "\<not> makechan_size_out_of_range e 1024"
proof -
  have "uint (signalAuthKey_size e) < 65536"
    using uint_lt2p [of "signalAuthKey_size e"] by simp
  then show ?thesis
    by (simp add: makechan_size_out_of_range_def maxAlloc_def hchanSize_def)
qed

lemma registerSignalAuthenticationJob_closed:
  "\<not> makechan_size_out_of_range e (MeshAuthQueueSize cfg) \<Longrightarrow>
   registerSignalAuthenticationJob e g cfg w =
     (case RegisterHandler e (signalChannel cfg w) [SignalAuthRequired] of
        Some err \<Rightarrow>
          Inr (Some (Errorf
            ''failed to set up signal channel for datapath authentication required events'' err),
            afterRegisterHandler cfg w)
      | None \<Rightarrow>
          Inr (None, addJobs g [signalAuthenticationJob (signalChannel cfg w)]
                       (afterRegisterHandler cfg w)))"
  by (simp add: registerSignalAuthenticationJob_def make_chan_def sm_RegisterHandler_def
      jobGroup_Add_addJobs signalAuthenticationJob_def signalChannel_def afterRegisterHandler_def
      split: option.splits)

lemma registerSignalAuthenticationJob_out_of_range:
  "makechan_size_out_of_range e (MeshAuthQueueSize cfg) \<Longrightarrow>
   registerSignalAuthenticationJob e g cfg w = Inl MakechanSizeOutOfRange"
  by (simp add: registerSignalAuthenticationJob_def make_chan_def)

lemma Lifecycle_Start_append:
  "Lifecycle_Start e gs (xs @ ys) =
     (case Lifecycle_Start e gs xs of
        (evs, Some err) \<Rightarrow> (evs, Some err)
      | (evs, None) \<Rightarrow> (case Lifecycle_Start e gs ys of (evs', r) \<Rightarrow> (evs @ evs', r)))"
  by (induction xs) (auto split: prod.splits option.splits)

lemma groupsBelow_not_started:
  "groupsBelow n lc \<Longrightarrow> JobStarted n j \<notin> set (fst (Lifecycle_Start e gs lc))"
  by (induction n lc rule: groupsBelow.induct) (auto split: prod.splits option.splits)

lemma afterAppends_fields:
  "nextChan (afterAppends w) = nextChan w"
  "nextGroup (afterAppends w) = Suc (nextGroup w)"
  "groups (afterAppends w) = groups w"
  "logs (afterAppends w) = logs w"
  "lifecycle (afterAppends w) = lifecycle w @ [Hook_restoreCache, Hook_jobGroup (nextGroup w)]"
  "constructed (afterAppends w) =
     constructed w @ [AuthMapWriter, AuthMapCache, AuthManager, AuthMapGC]"
  "registerHandlerCalls (afterAppends w) = registerHandlerCalls w"
  by (simp_all add: afterAppends_def)

lemma afterRegisterHandler_fields:
  "nextChan (afterRegisterHandler cfg w) = Suc (nextChan w)"
  "nextGroup (afterRegisterHandler cfg w) = nextGroup w"
  "groups (afterRegisterHandler cfg w) = groups w"
  "logs (afterRegisterHandler cfg w) = logs w"
  "lifecycle (afterRegisterHandler cfg w) = lifecycle w"
  "constructed (afterRegisterHandler cfg w) = constructed w"
  "registerHandlerCalls (afterRegisterHandler cfg w) =
     registerHandlerCalls w @ [(signalChannel cfg w, [SignalAuthRequired])]"
  by (simp_all add: afterRegisterHandler_def)

lemma signalChannel_afterAppends:
  "signalChannel cfg (afterAppends w) = signalChannel cfg w"
  by (simp add: signalChannel_def afterAppends_def)

lemma registerAuthManager_enabled:
  assumes "MeshAuthEnabled (Config params)"
  shows "registerAuthManager e params w =
     (case newAuthManager e (AuthHandlers params) of
        Some err \<Rightarrow>
          Inr (Some (Errorf ''failed to create auth manager'' err),
               construct AuthMapCache (construct AuthMapWriter w))
      | None \<Rightarrow>
          (if makechan_size_out_of_range e (MeshAuthQueueSize (Config params))
           then Inl MakechanSizeOutOfRange
           else
             (case RegisterHandler e (signalChannel (Config params) w) [SignalAuthRequired] of
                Some err \<Rightarrow>
                  Inr (Some (Errorf ''failed to register signal authentication job''
                         (Errorf
                            ''failed to set up signal channel for datapath authentication required events''
                            err)),
                       afterRegisterHandler (Config params) (afterAppends w))
              | None \<Rightarrow>
                  Inr (None,
                       addJobs (nextGroup w) (cellJobs params w)
                         (afterRegisterHandler (Config params) (afterAppends w))))))"
proof (cases "newAuthManager e (AuthHandlers params)")
  case (Some err)
  then show ?thesis using assms by (simp add: registerAuthManager_def)
next
  case None
  have step: "registerAuthManager e params w =
      (case registerSignalAuthenticationJob e (nextGroup w) (Config params) (afterAppends w) of
         Inl p \<Rightarrow> Inl p
       | Inr (Some err, w4) \<Rightarrow>
           Inr (Some (Errorf ''failed to register signal authentication job'' err), w4)
       | Inr (None, w4) \<Rightarrow>
           (case registerReAuthenticationJob (nextGroup w) (AuthHandlers params) w4 of
              Inl p \<Rightarrow> Inl p
            | Inr w5 \<Rightarrow>
                Inr (None,
                  registerGCJobs (nextGroup w) (Config params) (CiliumNodesParam params)
                    (IdentityChangesParam params) w5)))"
    using assms None
    by (cases w)
       (simp add: registerAuthManager_def Let_def JobRegistry_NewGroup_def
          Lifecycle_Append_def construct_def afterAppends_def
          cong: sum.case_cong option.case_cong prod.case_cong)
  show ?thesis
  proof (cases "makechan_size_out_of_range e (MeshAuthQueueSize (Config params))")
    case True
    then show ?thesis
      using None by (simp add: step registerSignalAuthenticationJob_out_of_range)
  next
    case False
    show ?thesis
      using None False
      by (simp add: step registerSignalAuthenticationJob_closed [OF False]
          registerReAuthenticationJob_closed registerGCJobs_closed addJobs_addJobs cellJobs_def
          signalChannel_afterAppends split: option.splits)
  qed
qed

lemma Lifecycle_Start_restore_then_group:
  "Lifecycle_Start e gs (lc @ [Hook_restoreCache, Hook_jobGroup g]) =
     (case Lifecycle_Start e gs lc of
        (evs, Some err) \<Rightarrow> (evs, Some err)
      | (evs, None) \<Rightarrow>
          (case restoreCache e of
             Some err \<Rightarrow> (evs, Some (Errorf ''failed to restore auth map cache'' err))
           | None \<Rightarrow> (evs @ CacheRestored # map (JobStarted g) (gs g), None)))"
  by (simp add: Lifecycle_Start_append restoreCacheHook_OnStart_def
      split: prod.splits option.splits)

lemma started_after_restore:
  assumes fresh: "\<And>j. JobStarted g j \<notin> set pre"
    and i: "i < length (pre @ CacheRestored # map (JobStarted g) js)"
    and at: "(pre @ CacheRestored # map (JobStarted g) js) ! i = JobStarted g j"
  shows "\<exists>k<i. (pre @ CacheRestored # map (JobStarted g) js) ! k = CacheRestored"
proof -
  have "\<not> i < length pre"
  proof
    assume "i < length pre"
    then have "pre ! i \<in> set pre" by simp
    moreover have "pre ! i = JobStarted g j"
      using at \<open>i < length pre\<close> by (simp add: nth_append)
    ultimately show False using fresh by simp
  qed
  moreover have "i \<noteq> length pre"
    using at by auto
  ultimately have "length pre < i" by simp
  moreover have "(pre @ CacheRestored # map (JobStarted g) js) ! length pre = CacheRestored"
    by simp
  ultimately show ?thesis by blast
qed

lemma registerAuthManager_success:
  assumes "MeshAuthEnabled (Config params)"
    and "registerAuthManager e params w = Inr (None, w')"
  shows "w' = addJobs (nextGroup w) (cellJobs params w)
                (afterRegisterHandler (Config params) (afterAppends w))"
  using assms(2)
  by (simp add: registerAuthManager_enabled [OF assms(1)] split: option.splits if_splits)

lemma registerAuthManager_params0:
  assumes "newAuthManager e (AuthHandlers params0) = None"
    and "RegisterHandler e (signalChannel defaultConfig world0) [SignalAuthRequired] = None"
  shows "registerAuthManager e params0 world0 = Inr (None, wired0)"
proof -
  have en: "MeshAuthEnabled (Config params0)"
    by (simp add: params0_def defaultConfig_def)
  have cfg: "Config params0 = defaultConfig"
    by (simp add: params0_def)
  have size: "MeshAuthQueueSize defaultConfig = 1024"
    by (simp add: defaultConfig_def)
  have g: "nextGroup world0 = 0"
    by (simp add: world0_def)
  show ?thesis
    using assms
    by (simp add: registerAuthManager_enabled [OF en] cfg wired0_def size default_size_in_range g)
qed

lemma wired0_fields:
  "lifecycle wired0 = [Hook_restoreCache, Hook_jobGroup 0]"
  "groups wired0 0 =
     [ Observer ''auth request-authentication'' handleAuthRequest
         (FromSignalChannel \<lparr>chan_id = 0, chan_cap = 1024\<rparr>),
       Observer ''auth re-authentication'' handleCertificateRotationEvent
         (FromRotationChannel (Some 7)),
       Observer ''auth gc-identity-events'' handleIdentityChange (IdentityChanges 0),
       Observer ''auth gc-node-events'' handleCiliumNodeEvent (CiliumNodes 0),
       Timer ''auth gc-cleanup'' cleanup 300000000000 ]"
  by (simp_all add: wired0_def addJobs_fields afterRegisterHandler_fields afterAppends_fields
      world0_def cellJobs_def params0_def defaultConfig_def signalChannel_def gcJobs_def
      signalAuthenticationJob_def reAuthenticationJob_def gcIdentityJob_def gcNodeJob_def
      gcCleanupJob_def mutualHandler_def alwaysFailHandler_def Minute_def Second_def
      Millisecond_def Microsecond_def Nanosecond_def)

subsection \<open>The restore hook and the start of the lifecycle\<close>

text \<open>
  C1. When \<open>registerAuthManager\<close> has wired the cell, the lifecycle it leaves is the one it
  found followed by the restore hook and then the new job group, and the observer of the
  signal channel is a job of that group. So in every start of the lifecycle no job of the
  group is started unless \<open>restoreCache\<close> has succeeded, and the restore comes before
  the job in the trace; and when the hooks before and \<open>restoreCache\<close> succeed, the start
  restores the cache and then starts the jobs of the group. (The lifecycle the cell found
  names no group that the registry has yet to make.)
\<close>

theorem restore_hook_precedes_job_group:
  assumes "MeshAuthEnabled (Config params)"
    and "registerAuthManager e params w = Inr (None, w')"
    and "groupsBelow (nextGroup w) (lifecycle w)"
  shows "lifecycle w' = lifecycle w @ [Hook_restoreCache, Hook_jobGroup (nextGroup w)]
   \<and> Observer ''auth request-authentication'' handleAuthRequest
        (FromSignalChannel \<lparr>chan_id = nextChan w, chan_cap = MeshAuthQueueSize (Config params)\<rparr>)
       \<in> set (groups w' (nextGroup w))
   \<and> (\<forall>evs r i j.
         Lifecycle_Start e (groups w') (lifecycle w') = (evs, r) \<longrightarrow>
         i < length evs \<longrightarrow> evs ! i = JobStarted (nextGroup w) j \<longrightarrow>
         restoreCache e = None \<and> (\<exists>k<i. evs ! k = CacheRestored))
   \<and> (\<forall>pre.
         Lifecycle_Start e (groups w') (lifecycle w) = (pre, None) \<longrightarrow> restoreCache e = None \<longrightarrow>
         Lifecycle_Start e (groups w') (lifecycle w') =
           (pre @ CacheRestored # map (JobStarted (nextGroup w)) (groups w' (nextGroup w)), None))"
proof -
  let ?g = "nextGroup w"
  have w': "w' = addJobs ?g (cellJobs params w)
                   (afterRegisterHandler (Config params) (afterAppends w))"
    using assms(1,2) by (rule registerAuthManager_success)
  have lc: "lifecycle w' = lifecycle w @ [Hook_restoreCache, Hook_jobGroup ?g]"
    by (simp add: w' addJobs_fields afterRegisterHandler_fields afterAppends_fields)
  have job: "Observer ''auth request-authentication'' handleAuthRequest
        (FromSignalChannel \<lparr>chan_id = nextChan w, chan_cap = MeshAuthQueueSize (Config params)\<rparr>)
       \<in> set (groups w' ?g)"
    by (simp add: w' addJobs_fields cellJobs_def signalAuthenticationJob_def signalChannel_def)
  have fresh: "JobStarted ?g j \<notin> set (fst (Lifecycle_Start e (groups w') (lifecycle w)))" for j
    using assms(3) by (rule groupsBelow_not_started)
  have before: "restoreCache e = None \<and> (\<exists>k<i. evs ! k = CacheRestored)"
    if run: "Lifecycle_Start e (groups w') (lifecycle w') = (evs, r)"
      and i: "i < length evs" and at: "evs ! i = JobStarted ?g j" for evs r i j
  proof -
    obtain pre r0 where pre: "Lifecycle_Start e (groups w') (lifecycle w) = (pre, r0)"
      by (cases "Lifecycle_Start e (groups w') (lifecycle w)")
    have nopre: "JobStarted ?g j' \<notin> set pre" for j'
      using fresh [of j'] pre by simp
    have inpre: "evs = pre \<Longrightarrow> False"
      using nopre [of j] i at by (metis nth_mem)
    show ?thesis
    proof (cases r0)
      case (Some err)
      then have "evs = pre"
        using run pre by (simp add: lc Lifecycle_Start_restore_then_group)
      then show ?thesis using inpre by simp
    next
      case None
      show ?thesis
      proof (cases "restoreCache e")
        case (Some err)
        then have "evs = pre"
          using run pre None by (simp add: lc Lifecycle_Start_restore_then_group)
        then show ?thesis using inpre by simp
      next
        case rn: None
        have evs: "evs = pre @ CacheRestored # map (JobStarted ?g) (groups w' ?g)"
          using run pre None rn by (simp add: lc Lifecycle_Start_restore_then_group)
        show ?thesis
          using rn started_after_restore [of ?g pre i "groups w' ?g" j] nopre i at
          unfolding evs by blast
      qed
    qed
  qed
  have success: "Lifecycle_Start e (groups w') (lifecycle w') =
           (pre @ CacheRestored # map (JobStarted ?g) (groups w' ?g), None)"
    if "Lifecycle_Start e (groups w') (lifecycle w) = (pre, None)" and "restoreCache e = None"
    for pre
    using that by (simp add: lc Lifecycle_Start_restore_then_group)
  show ?thesis
    using lc job before success by blast
qed

theorem restore_hook_precedes_job_group_witness:
  "MeshAuthEnabled (Config params0)
   \<and> registerAuthManager env_ok params0 world0 = Inr (None, wired0)
   \<and> groupsBelow (nextGroup world0) (lifecycle world0)
   \<and> lifecycle wired0 = [Hook_restoreCache, Hook_jobGroup 0]
   \<and> Observer ''auth request-authentication'' handleAuthRequest
        (FromSignalChannel \<lparr>chan_id = 0, chan_cap = 1024\<rparr>) \<in> set (groups wired0 0)
   \<and> Lifecycle_Start env_ok (groups wired0) (lifecycle wired0) =
       ([ CacheRestored,
          JobStarted 0 (Observer ''auth request-authentication'' handleAuthRequest
            (FromSignalChannel \<lparr>chan_id = 0, chan_cap = 1024\<rparr>)),
          JobStarted 0 (Observer ''auth re-authentication'' handleCertificateRotationEvent
            (FromRotationChannel (Some 7))),
          JobStarted 0 (Observer ''auth gc-identity-events'' handleIdentityChange (IdentityChanges 0)),
          JobStarted 0 (Observer ''auth gc-node-events'' handleCiliumNodeEvent (CiliumNodes 0)),
          JobStarted 0 (Timer ''auth gc-cleanup'' cleanup 300000000000) ], None)"
proof -
  have en: "MeshAuthEnabled (Config params0)"
    by (simp add: params0_def defaultConfig_def)
  have run: "registerAuthManager env_ok params0 world0 = Inr (None, wired0)"
    by (rule registerAuthManager_params0) (simp_all add: env_ok_def)
  have wf: "groupsBelow (nextGroup world0) (lifecycle world0)"
    by (simp add: world0_def)
  have start0: "Lifecycle_Start env_ok (groups wired0) (lifecycle world0) = ([], None)"
    by (simp add: world0_def)
  have rc: "restoreCache env_ok = None"
    by (simp add: env_ok_def)
  have w0: "nextGroup world0 = 0" "nextChan world0 = 0" "lifecycle world0 = []"
    "MeshAuthQueueSize (Config params0) = 1024"
    by (simp_all add: world0_def params0_def defaultConfig_def)
  show ?thesis
    using en run wf start0 rc restore_hook_precedes_job_group [OF en run wf]
    by (simp add: w0 wired0_fields)
qed

text \<open>
  C2. When \<open>restoreCache\<close> returns an error, the \<open>OnStart\<close> of the restore hook returns
  an error, the one of \<open>restoreCache\<close> wrapped with "failed to restore auth map cache". The
  start of the lifecycle that \<open>registerAuthManager\<close> left then fails: it returns the error
  of an earlier hook or this one, and its trace is the trace of the hooks before the
  restore hook, so that no job of the cell is started.
\<close>

theorem failed_restore_aborts_start:
  assumes "restoreCache e = Some err"
    and "MeshAuthEnabled (Config params)"
    and "registerAuthManager e params w = Inr (None, w')"
  shows "restoreCacheHook_OnStart e = Some (Errorf ''failed to restore auth map cache'' err)
   \<and> Lifecycle_Start e (groups w') (lifecycle w') =
       (case Lifecycle_Start e (groups w') (lifecycle w) of
          (evs, Some err') \<Rightarrow> (evs, Some err')
        | (evs, None) \<Rightarrow> (evs, Some (Errorf ''failed to restore auth map cache'' err)))
   \<and> snd (Lifecycle_Start e (groups w') (lifecycle w')) \<noteq> None
   \<and> fst (Lifecycle_Start e (groups w') (lifecycle w')) =
       fst (Lifecycle_Start e (groups w') (lifecycle w))"
proof -
  have w': "w' = addJobs (nextGroup w) (cellJobs params w)
                   (afterRegisterHandler (Config params) (afterAppends w))"
    using assms(2,3) by (rule registerAuthManager_success)
  have lc: "lifecycle w' = lifecycle w @ [Hook_restoreCache, Hook_jobGroup (nextGroup w)]"
    by (simp add: w' addJobs_fields afterRegisterHandler_fields afterAppends_fields)
  show ?thesis
    using assms(1)
    by (simp add: lc Lifecycle_Start_restore_then_group restoreCacheHook_OnStart_def
        split: prod.splits option.splits)
qed

theorem failed_restore_aborts_start_witness:
  "restoreCache env_restore_fails = Some (External ''authmap dump failed'')
   \<and> MeshAuthEnabled (Config params0)
   \<and> registerAuthManager env_restore_fails params0 world0 = Inr (None, wired0)
   \<and> restoreCacheHook_OnStart env_restore_fails =
       Some (Errorf ''failed to restore auth map cache'' (External ''authmap dump failed''))
   \<and> Lifecycle_Start env_restore_fails (groups wired0) (lifecycle wired0) =
       ([], Some (Errorf ''failed to restore auth map cache'' (External ''authmap dump failed'')))"
proof -
  have rc: "restoreCache env_restore_fails = Some (External ''authmap dump failed'')"
    by (simp add: env_restore_fails_def)
  have en: "MeshAuthEnabled (Config params0)"
    by (simp add: params0_def defaultConfig_def)
  have run: "registerAuthManager env_restore_fails params0 world0 = Inr (None, wired0)"
    by (rule registerAuthManager_params0) (simp_all add: env_restore_fails_def env_ok_def)
  have start0: "Lifecycle_Start env_restore_fails (groups wired0) (lifecycle world0) = ([], None)"
    by (simp add: world0_def)
  show ?thesis
    using rc en run start0 failed_restore_aborts_start [OF rc en run]
    by simp
qed

subsection \<open>The disabled cell\<close>

text \<open>
  C3. When \<open>MeshAuthEnabled\<close> is false, \<open>registerAuthManager\<close> returns nil and the world it
  leaves differs from the one it found in the log line only: no component is constructed,
  no hook is appended to the lifecycle, no job group is made, no job is added, no channel
  is made and \<open>RegisterHandler\<close> is not called.
\<close>

theorem disabled_registers_nothing:
  assumes "\<not> MeshAuthEnabled (Config params)"
  shows "registerAuthManager e params w =
           Inr (None, w\<lparr>logs := logs w @ [''Authentication processing is disabled'']\<rparr>)"
  using assms by (simp add: registerAuthManager_def Logger_Info_def)

theorem disabled_registers_nothing_witness:
  "\<not> MeshAuthEnabled (Config (params0\<lparr>Config := disabledConfig\<rparr>))
   \<and> registerAuthManager env_ok (params0\<lparr>Config := disabledConfig\<rparr>) world0 =
       Inr (None,
         \<lparr> logs = [''Authentication processing is disabled''], constructed = [], lifecycle = [],
           nextGroup = 0, groups = (\<lambda>g. []), nextChan = 0, registerHandlerCalls = [] \<rparr>)"
proof -
  have off: "\<not> MeshAuthEnabled (Config (params0\<lparr>Config := disabledConfig\<rparr>))"
    by (simp add: disabledConfig_def)
  show ?thesis
    using off disabled_registers_nothing [OF off, of env_ok world0]
    by (simp add: world0_def)
qed

subsection \<open>The re-authentication jobs\<close>

text \<open>
  C4. \<open>registerReAuthenticationJob\<close> adds to the job group, for every entry of the handler
  list that is not nil and whose \<open>subscribeToRotatedIdentities\<close> is not nil, exactly one
  observer job named "auth re-authentication" that runs \<open>handleCertificateRotationEvent\<close> on
  the events of that subscription, in the order of the list; an entry whose subscription is
  nil gets no job. So the jobs added are as many as such entries, and nothing else of the
  world changes.
\<close>

theorem reauthentication_job_per_subscription:
  "registerReAuthenticationJob g hs w =
     Inr (addJobs g
            (map (\<lambda>c. Observer ''auth re-authentication'' handleCertificateRotationEvent
                         (FromRotationChannel (Some c)))
               (rotationSubscriptions hs)) w)
   \<and> rotationSubscriptions hs =
       List.map_filter (\<lambda>ah. Option.bind ah subscribeToRotatedIdentities) hs
   \<and> length (rotationSubscriptions hs) =
       length (filter (\<lambda>ah. Option.bind ah subscribeToRotatedIdentities \<noteq> None) hs)"
proof -
  have a: "rotationSubscriptions hs =
             List.map_filter (\<lambda>ah. Option.bind ah subscribeToRotatedIdentities) hs"
    by (induction hs rule: rotationSubscriptions.induct)
       (simp_all split: option.splits)
  have b: "length (List.map_filter f xs) = length (filter (\<lambda>x. f x \<noteq> None) xs)"
    for f :: "authHandler option \<Rightarrow> rotation_chan option" and xs
    by (simp add: List.map_filter_def)
  have c: "map reAuthenticationJob =
             map (\<lambda>c. Observer ''auth re-authentication'' handleCertificateRotationEvent
                          (FromRotationChannel (Some c)))"
    by (simp add: reAuthenticationJob_def fun_eq_iff)
  show ?thesis
    using a b [of "\<lambda>ah. Option.bind ah subscribeToRotatedIdentities" hs]
    by (simp add: registerReAuthenticationJob_closed c)
qed

text \<open>
  C9. \<open>registerReAuthenticationJob\<close> never panics, whatever nil entries the handler list
  has: it returns a world. A nil entry anywhere in the list is skipped, the result is the
  one for the list without it, and a list of nil entries only leaves the world as it was.
  (A method call on a nil entry would be the panic \<open>NilPointerDereference\<close>.)
\<close>

theorem reauthentication_skips_nil_handlers:
  "(\<exists>w'. registerReAuthenticationJob g hs w = Inr w')
   \<and> registerReAuthenticationJob g (xs @ None # ys) w = registerReAuthenticationJob g (xs @ ys) w
   \<and> registerReAuthenticationJob g hs w =
       registerReAuthenticationJob g (filter (\<lambda>ah. ah \<noteq> None) hs) w
   \<and> registerReAuthenticationJob g (replicate n None) w = Inr w"
proof -
  have app: "rotationSubscriptions (as @ bs) = rotationSubscriptions as @ rotationSubscriptions bs"
    for as bs
    by (induction as rule: rotationSubscriptions.induct) (simp_all split: option.splits)
  have flt: "rotationSubscriptions (filter (\<lambda>ah. ah \<noteq> None) as) = rotationSubscriptions as"
    for as
    by (induction as rule: rotationSubscriptions.induct) (simp_all split: option.splits)
  have rep: "rotationSubscriptions (replicate k None) = []" for k
    by (induction k) simp_all
  show ?thesis
    using flt [of hs]
    by (simp add: registerReAuthenticationJob_closed app rep addJobs_Nil)
qed

subsection \<open>The garbage collection jobs\<close>

text \<open>
  C5, as the code has it. \<open>registerGCJobs\<close> adds to the job group an observer of the
  identity changes that runs \<open>handleIdentityChange\<close>, then, only when the node resource is
  not nil, an observer of the node changes that runs \<open>handleCiliumNodeEvent\<close>, then a timer
  that runs \<open>cleanup\<close> at the interval \<open>MeshAuthGCInterval\<close>: three jobs of their own with
  a node resource, two without. Nothing else of the world changes.
\<close>

theorem gc_jobs_registered:
  "groups (registerGCJobs g cfg (Some r) identityChanges w) g =
     groups w g @
     [ Observer ''auth gc-identity-events'' handleIdentityChange (IdentityChanges identityChanges),
       Observer ''auth gc-node-events'' handleCiliumNodeEvent (CiliumNodes r),
       Timer ''auth gc-cleanup'' cleanup (MeshAuthGCInterval cfg) ]
   \<and> groups (registerGCJobs g cfg None identityChanges w) g =
     groups w g @
     [ Observer ''auth gc-identity-events'' handleIdentityChange (IdentityChanges identityChanges),
       Timer ''auth gc-cleanup'' cleanup (MeshAuthGCInterval cfg) ]
   \<and> registerGCJobs g cfg nodeChanges identityChanges w =
       addJobs g (gcJobs cfg nodeChanges identityChanges) w"
  by (simp add: registerGCJobs_closed addJobs_fields gcJobs_def gcIdentityJob_def gcNodeJob_def
      gcCleanupJob_def)

text \<open>
  C5 as stated fails: with a nil node resource (no k8s client) the group gets two jobs, and
  none observes node changes.
\<close>

theorem gc_jobs_without_node_resource:
  "groups (registerGCJobs 0 defaultConfig None 0 world0) 0 =
     [ Observer ''auth gc-identity-events'' handleIdentityChange (IdentityChanges 0),
       Timer ''auth gc-cleanup'' cleanup 300000000000 ]"
  by (simp add: registerGCJobs_def jobGroup_Add_def world0_def defaultConfig_def Minute_def
      Second_def Millisecond_def Microsecond_def Nanosecond_def)

subsection \<open>The signal queue\<close>

text \<open>
  C6, as the code has it. Making the channel panics exactly when \<open>MeshAuthQueueSize\<close> is
  negative or the buffer of that many elements is beyond the bound of the runtime
  (\<open>maxAlloc - hchanSize\<close> bytes). In every other case \<open>registerSignalAuthenticationJob\<close>
  returns, having made one channel whose capacity is \<open>MeshAuthQueueSize\<close> and called
  \<open>RegisterHandler\<close> once, with that channel and the one signal \<open>SignalAuthRequired\<close>. It
  returns the error of that call, wrapped, or nil; when it returns nil it has added to the
  job group one observer job, named "auth request-authentication", that runs
  \<open>handleAuthRequest\<close> on the events of the same channel, and when it returns an error it
  has added no job.
\<close>

theorem signal_queue_capacity_and_registration:
  "(registerSignalAuthenticationJob e g cfg w = Inl MakechanSizeOutOfRange) =
     (MeshAuthQueueSize cfg < 0
      \<or> maxAlloc - hchanSize < uint (signalAuthKey_size e) * MeshAuthQueueSize cfg)
   \<and> (0 \<le> MeshAuthQueueSize cfg
        \<and> uint (signalAuthKey_size e) * MeshAuthQueueSize cfg \<le> maxAlloc - hchanSize \<longrightarrow>
      (\<exists>r w' ch.
           registerSignalAuthenticationJob e g cfg w = Inr (r, w')
           \<and> ch = \<lparr>chan_id = nextChan w, chan_cap = MeshAuthQueueSize cfg\<rparr>
           \<and> registerHandlerCalls w' = registerHandlerCalls w @ [(ch, [SignalAuthRequired])]
           \<and> r = map_option
                   (Errorf ''failed to set up signal channel for datapath authentication required events'')
                   (RegisterHandler e ch [SignalAuthRequired])
           \<and> groups w' g =
               groups w g @
               (if r = None
                then [Observer ''auth request-authentication'' handleAuthRequest (FromSignalChannel ch)]
                else [])
           \<and> nextChan w' = Suc (nextChan w)))"
proof (cases "makechan_size_out_of_range e (MeshAuthQueueSize cfg)")
  case True
  then show ?thesis
    using registerSignalAuthenticationJob_out_of_range [OF True, of g w]
    by (auto simp add: makechan_size_out_of_range_def)
next
  case False
  have range: "0 \<le> MeshAuthQueueSize cfg"
    "uint (signalAuthKey_size e) * MeshAuthQueueSize cfg \<le> maxAlloc - hchanSize"
    using False by (simp_all add: makechan_size_out_of_range_def)
  have ret: "\<exists>r w' ch.
           registerSignalAuthenticationJob e g cfg w = Inr (r, w')
           \<and> ch = \<lparr>chan_id = nextChan w, chan_cap = MeshAuthQueueSize cfg\<rparr>
           \<and> registerHandlerCalls w' = registerHandlerCalls w @ [(ch, [SignalAuthRequired])]
           \<and> r = map_option
                   (Errorf ''failed to set up signal channel for datapath authentication required events'')
                   (RegisterHandler e ch [SignalAuthRequired])
           \<and> groups w' g =
               groups w g @
               (if r = None
                then [Observer ''auth request-authentication'' handleAuthRequest (FromSignalChannel ch)]
                else [])
           \<and> nextChan w' = Suc (nextChan w)"
    by (cases "RegisterHandler e (signalChannel cfg w) [SignalAuthRequired]")
       (simp_all add: registerSignalAuthenticationJob_closed [OF False] addJobs_fields
          afterRegisterHandler_fields signalAuthenticationJob_def signalChannel_def)
  have nopanic: "registerSignalAuthenticationJob e g cfg w \<noteq> Inl MakechanSizeOutOfRange"
    using ret by auto
  show ?thesis
    using ret nopanic range by simp
qed

theorem signal_queue_capacity_and_registration_witness:
  "0 \<le> MeshAuthQueueSize defaultConfig
   \<and> uint (signalAuthKey_size env_ok) * MeshAuthQueueSize defaultConfig \<le> maxAlloc - hchanSize
   \<and> (\<exists>w'. registerSignalAuthenticationJob env_ok 0 defaultConfig world0 = Inr (None, w')
         \<and> registerHandlerCalls w' = [(\<lparr>chan_id = 0, chan_cap = 1024\<rparr>, [SignalAuthRequired])]
         \<and> groups w' 0 =
             [Observer ''auth request-authentication'' handleAuthRequest
                (FromSignalChannel \<lparr>chan_id = 0, chan_cap = 1024\<rparr>)])"
proof -
  have nn: "0 \<le> MeshAuthQueueSize defaultConfig"
    by (simp add: defaultConfig_def)
  have le: "uint (signalAuthKey_size env_ok) * MeshAuthQueueSize defaultConfig \<le> maxAlloc - hchanSize"
    by (simp add: defaultConfig_def env_ok_def maxAlloc_def hchanSize_def)
  show ?thesis
    using nn le signal_queue_capacity_and_registration [of env_ok 0 defaultConfig world0]
    by (auto simp add: defaultConfig_def env_ok_def world0_def)
qed

text \<open>
  C6 as stated fails: with the queue size \<open>-1\<close> making the channel panics, and no queue
  of that capacity is made.
\<close>

theorem signal_queue_negative_size_panics:
  "registerSignalAuthenticationJob env_ok 0 negativeQueueConfig world0 = Inl MakechanSizeOutOfRange"
  by (simp add: registerSignalAuthenticationJob_def make_chan_def makechan_size_out_of_range_def
      negativeQueueConfig_def defaultConfig_def)

text \<open>
  So it does with a queue size whose buffer is beyond the bound of the runtime: \<open>2^62\<close>
  elements of 12 bytes.
\<close>

lemma signal_queue_huge_size_panics:
  "registerSignalAuthenticationJob env_ok 0 hugeQueueConfig world0 = Inl MakechanSizeOutOfRange"
  by (simp add: registerSignalAuthenticationJob_def make_chan_def makechan_size_out_of_range_def
      hugeQueueConfig_def defaultConfig_def env_ok_def maxAlloc_def hchanSize_def)

subsection \<open>The errors of registerAuthManager\<close>

text \<open>
  C7, as the code has it. \<open>registerAuthManager\<close> panics exactly when \<open>MeshAuthEnabled\<close> is
  true, \<open>newAuthManager\<close> succeeds and making the channel panics (\<open>MeshAuthQueueSize\<close>
  negative, or its buffer beyond the bound of the runtime). In every other case it returns,
  and it returns an error if and only if \<open>MeshAuthEnabled\<close> is true and either
  \<open>newAuthManager\<close> fails or \<open>RegisterHandler\<close> fails; else it returns nil. The error wraps
  the one of the collaborator.
\<close>

theorem registerAuthManager_error_iff:
  "(registerAuthManager e params w = Inl MakechanSizeOutOfRange) =
     (MeshAuthEnabled (Config params)
      \<and> newAuthManager e (AuthHandlers params) = None
      \<and> (MeshAuthQueueSize (Config params) < 0
           \<or> maxAlloc - hchanSize <
               uint (signalAuthKey_size e) * MeshAuthQueueSize (Config params)))
   \<and> (registerAuthManager e params w \<noteq> Inl MakechanSizeOutOfRange \<longrightarrow>
      (\<exists>r w'.
           registerAuthManager e params w = Inr (r, w')
           \<and> ((r \<noteq> None) =
                (MeshAuthEnabled (Config params)
                 \<and> (newAuthManager e (AuthHandlers params) \<noteq> None
                      \<or> RegisterHandler e
                           \<lparr>chan_id = nextChan w, chan_cap = MeshAuthQueueSize (Config params)\<rparr>
                           [SignalAuthRequired] \<noteq> None)))
           \<and> r =
               (if \<not> MeshAuthEnabled (Config params) then None
                else
                  (case newAuthManager e (AuthHandlers params) of
                     Some err \<Rightarrow> Some (Errorf ''failed to create auth manager'' err)
                   | None \<Rightarrow>
                       map_option
                         (\<lambda>err. Errorf ''failed to register signal authentication job''
                            (Errorf
                               ''failed to set up signal channel for datapath authentication required events''
                               err))
                         (RegisterHandler e
                            \<lparr>chan_id = nextChan w, chan_cap = MeshAuthQueueSize (Config params)\<rparr>
                            [SignalAuthRequired])))))"
proof (cases "MeshAuthEnabled (Config params)")
  case False
  then show ?thesis
    by (simp add: registerAuthManager_def)
next
  case True
  show ?thesis
  proof (cases "newAuthManager e (AuthHandlers params)")
    case (Some err)
    then show ?thesis
      using True by (simp add: registerAuthManager_enabled [OF True])
  next
    case None
    show ?thesis
    proof (cases "makechan_size_out_of_range e (MeshAuthQueueSize (Config params))")
      case out: True
      then have "registerAuthManager e params w = Inl MakechanSizeOutOfRange"
        using None by (simp add: registerAuthManager_enabled [OF True])
      then show ?thesis
        using True None out by (auto simp add: makechan_size_out_of_range_def)
    next
      case inr: False
      then have range: "0 \<le> MeshAuthQueueSize (Config params)"
        "uint (signalAuthKey_size e) * MeshAuthQueueSize (Config params) \<le> maxAlloc - hchanSize"
        by (simp_all add: makechan_size_out_of_range_def)
      show ?thesis
        using True None inr range
        by (cases "RegisterHandler e (signalChannel (Config params) w) [SignalAuthRequired]")
           (simp_all add: registerAuthManager_enabled [OF True] signalChannel_def)
    qed
  qed
qed

theorem registerAuthManager_error_iff_witness:
  "registerAuthManager env_ok params0 world0 \<noteq> Inl MakechanSizeOutOfRange
   \<and> registerAuthManager env_ok params0 world0 = Inr (None, wired0)
   \<and> registerAuthManager env_manager_fails (params0\<lparr>Config := negativeQueueConfig\<rparr>) world0
       \<noteq> Inl MakechanSizeOutOfRange
   \<and> (\<exists>w'. registerAuthManager env_manager_fails (params0\<lparr>Config := negativeQueueConfig\<rparr>)
               world0 =
             Inr (Some (Errorf ''failed to create auth manager''
                          (External ''multiple handlers for auth type'')), w'))"
proof -
  have ok: "registerAuthManager env_ok params0 world0 = Inr (None, wired0)"
    by (rule registerAuthManager_params0) (simp_all add: env_ok_def)
  have nopanic: "registerAuthManager env_manager_fails (params0\<lparr>Config := negativeQueueConfig\<rparr>)
                   world0 \<noteq> Inl MakechanSizeOutOfRange"
    using registerAuthManager_error_iff
      [of env_manager_fails "params0\<lparr>Config := negativeQueueConfig\<rparr>" world0]
    by (simp add: env_manager_fails_def)
  show ?thesis
    using ok nopanic
      registerAuthManager_error_iff
        [of env_manager_fails "params0\<lparr>Config := negativeQueueConfig\<rparr>" world0]
    by (auto simp add: env_manager_fails_def negativeQueueConfig_def defaultConfig_def)
qed

text \<open>
  C7 as stated fails: with authentication enabled, the manager constructed and the queue
  size \<open>-1\<close>, \<open>registerAuthManager\<close> returns neither an error nor nil: it panics.
\<close>

theorem registerAuthManager_negative_size_panics:
  "registerAuthManager env_ok (params0\<lparr>Config := negativeQueueConfig\<rparr>) world0 =
     Inl MakechanSizeOutOfRange"
proof -
  have en: "MeshAuthEnabled (Config (params0\<lparr>Config := negativeQueueConfig\<rparr>))"
    by (simp add: negativeQueueConfig_def defaultConfig_def)
  show ?thesis
    by (simp add: registerAuthManager_enabled [OF en])
       (simp add: env_ok_def negativeQueueConfig_def defaultConfig_def
          makechan_size_out_of_range_def)
qed

subsection \<open>The defaults\<close>

text \<open>
  C8. The default configuration has \<open>MeshAuthQueueSize = 1024\<close> and
  \<open>MeshAuthGCInterval\<close> = 5 minutes (300000000000 nanoseconds), and these are the
  defaults of the two flags the configuration defines.
\<close>

theorem default_queue_size_and_gc_interval:
  "MeshAuthQueueSize defaultConfig = 1024
   \<and> MeshAuthGCInterval defaultConfig = 5 * Minute
   \<and> MeshAuthGCInterval defaultConfig = 300000000000
   \<and> lookupDefault (Flags defaultConfig []) ''mesh-auth-queue-size'' = Some (IntValue 1024)
   \<and> lookupDefault (Flags defaultConfig []) ''mesh-auth-gc-interval''
       = Some (DurationValue (5 * 60 * 1000000000))"
  by (simp add: defaultConfig_def Flags_def Minute_def Second_def Millisecond_def
      Microsecond_def Nanosecond_def)

text \<open>
  C10. The default configuration has \<open>MeshAuthEnabled\<close> true, and true is the default of
  the flag \<open>mesh-auth-enabled\<close>. So with the default configuration \<open>registerAuthManager\<close>
  does not take the disabled path: it logs nothing, builds the map writer and the map
  cache, and, when neither \<open>newAuthManager\<close> nor \<open>RegisterHandler\<close> fails, adds the jobs of
  authentication and of garbage collection to its new job group.
\<close>

theorem enabled_by_default:
  "MeshAuthEnabled defaultConfig
   \<and> lookupDefault (Flags defaultConfig []) ''mesh-auth-enabled'' = Some (BoolValue True)
   \<and> (\<exists>r w'.
         registerAuthManager e (params\<lparr>Config := defaultConfig\<rparr>) w = Inr (r, w')
         \<and> logs w' = logs w
         \<and> take 2 (drop (length (constructed w)) (constructed w')) = [AuthMapWriter, AuthMapCache]
         \<and> groups w' (nextGroup w) =
             groups w (nextGroup w) @
             (if newAuthManager e (AuthHandlers params) = None
                 \<and> RegisterHandler e \<lparr>chan_id = nextChan w, chan_cap = 1024\<rparr> [SignalAuthRequired] = None
              then Observer ''auth request-authentication'' handleAuthRequest
                     (FromSignalChannel \<lparr>chan_id = nextChan w, chan_cap = 1024\<rparr>) #
                   map reAuthenticationJob (rotationSubscriptions (AuthHandlers params)) @
                   gcJobs defaultConfig (CiliumNodesParam params) (IdentityChangesParam params)
              else []))"
proof -
  let ?p = "params\<lparr>Config := defaultConfig\<rparr>"
  have en: "MeshAuthEnabled (Config ?p)"
    by (simp add: defaultConfig_def)
  have size: "MeshAuthQueueSize defaultConfig = 1024"
    by (simp add: defaultConfig_def)
  have run: "\<exists>r w'.
         registerAuthManager e ?p w = Inr (r, w')
         \<and> logs w' = logs w
         \<and> take 2 (drop (length (constructed w)) (constructed w')) = [AuthMapWriter, AuthMapCache]
         \<and> groups w' (nextGroup w) =
             groups w (nextGroup w) @
             (if newAuthManager e (AuthHandlers params) = None
                 \<and> RegisterHandler e \<lparr>chan_id = nextChan w, chan_cap = 1024\<rparr> [SignalAuthRequired] = None
              then Observer ''auth request-authentication'' handleAuthRequest
                     (FromSignalChannel \<lparr>chan_id = nextChan w, chan_cap = 1024\<rparr>) #
                   map reAuthenticationJob (rotationSubscriptions (AuthHandlers params)) @
                   gcJobs defaultConfig (CiliumNodesParam params) (IdentityChangesParam params)
              else [])"
  proof (cases "newAuthManager e (AuthHandlers params)")
    case (Some err)
    then show ?thesis
      by (simp add: registerAuthManager_enabled [OF en] construct_def)
  next
    case None
    then show ?thesis
      by (cases "RegisterHandler e (signalChannel defaultConfig w) [SignalAuthRequired]")
         (simp_all add: registerAuthManager_enabled [OF en] size default_size_in_range
            signalChannel_def addJobs_fields afterRegisterHandler_fields afterAppends_fields
            cellJobs_def signalAuthenticationJob_def)
  qed
  show ?thesis
    using run by (simp add: defaultConfig_def Flags_def)
qed

end
